theory Spec2Isabelle
  imports Complex_Main "HOL-Library.AList"
begin

section \<open>Emissions factors: enumerations, text normalizers, conversion factors\<close>

text \<open>
  A shallow embedding of \<^verbatim>\<open>src/model/emissionsfactors.py\<close>.

  Modelling decisions.
  \<^item> The three \<^verbatim>\<open>enum.Enum\<close> types are datatypes.
  \<^item> Every \<^verbatim>\<open>raise ValueError(msg)\<close> is the value \<open>Inl (ValueError msg)\<close>; a function
    that can raise returns \<open>error + 'a\<close>.
  \<^item> A Python \<^verbatim>\<open>str\<close> is a \<open>string\<close>: a list of 8-bit characters, read as the code
    points 0 to 255 (Latin-1). Code points above 255 are outside the model.
  \<^item> The floating-point numbers of the module are only written as decimal literals,
    stored and copied; the module does no arithmetic on them. Each one is modelled as
    the rational number its decimal literal denotes. Equal rationals are equal
    literals, hence equal floats.
  \<^item> The decorators \<^verbatim>\<open>lru_cache\<close> and \<^verbatim>\<open>data_func\<close> and the base class
    \<^verbatim>\<open>DataHandler\<close> are not part of the sources at hand; they are taken to pass the
    value of the decorated method through unchanged.
\<close>

datatype CO2EQ_SOURCE = AR5_WITH_FEEDBACK | AR4 | SAR

datatype GRID_SOURCE = META | IPCC

datatype GRID_RANGE = MEAN | HIGH | LOW

datatype error = ValueError string

text \<open>\<^verbatim>\<open>str(member)\<close> of a plain \<^verbatim>\<open>Enum\<close> member is \<^verbatim>\<open>ClassName.MEMBER\<close>.\<close>

fun str_CO2EQ_SOURCE :: "CO2EQ_SOURCE \<Rightarrow> string" where
  "str_CO2EQ_SOURCE AR5_WITH_FEEDBACK = ''CO2EQ_SOURCE.AR5_WITH_FEEDBACK''"
| "str_CO2EQ_SOURCE AR4 = ''CO2EQ_SOURCE.AR4''"
| "str_CO2EQ_SOURCE SAR = ''CO2EQ_SOURCE.SAR''"

fun str_GRID_SOURCE :: "GRID_SOURCE \<Rightarrow> string" where
  "str_GRID_SOURCE META = ''GRID_SOURCE.META''"
| "str_GRID_SOURCE IPCC = ''GRID_SOURCE.IPCC''"

fun str_GRID_RANGE :: "GRID_RANGE \<Rightarrow> string" where
  "str_GRID_RANGE MEAN = ''GRID_RANGE.MEAN''"
| "str_GRID_RANGE HIGH = ''GRID_RANGE.HIGH''"
| "str_GRID_RANGE LOW = ''GRID_RANGE.LOW''"

subsection \<open>\<^verbatim>\<open>class CO2Equiv\<close>\<close>

record CO2Equiv =
  conversion_source :: CO2EQ_SOURCE
  CH4multiplier :: int
  N2Omultiplier :: int

text \<open>
  \<^verbatim>\<open>CO2Equiv.__init__(self, conversion_source=None)\<close>. The argument is \<open>None\<close> when it is
  omitted; an enumeration member is truthy, so only \<open>None\<close> takes the default.
\<close>

definition CO2Equiv_init :: "CO2EQ_SOURCE option \<Rightarrow> error + CO2Equiv" where
  "CO2Equiv_init arg =
    (let cs = (case arg of Some s \<Rightarrow> s | None \<Rightarrow> AR5_WITH_FEEDBACK) in
     if cs = AR5_WITH_FEEDBACK then
       Inr \<lparr>conversion_source = cs, CH4multiplier = 34, N2Omultiplier = 298\<rparr>
     else if cs = AR4 then
       Inr \<lparr>conversion_source = cs, CH4multiplier = 25, N2Omultiplier = 298\<rparr>
     else if cs = SAR then
       Inr \<lparr>conversion_source = cs, CH4multiplier = 21, N2Omultiplier = 310\<rparr>
     else Inl (ValueError (''invalid conversion_source='' @ str_CO2EQ_SOURCE cs)))"

subsection \<open>Text normalizers\<close>

text \<open>
  \<^verbatim>\<open>str.lower\<close> on the code points 0 to 255: the letters A to Z and the Latin-1 capitals
  0xC0 to 0xDE (without the multiplication sign 0xD7) move up by 32, every other
  character stays.
\<close>

definition lower_char :: "char \<Rightarrow> char" where
  "lower_char c =
    (let n = (of_char c :: nat) in
     if (65 \<le> n \<and> n \<le> 90) \<or> (192 \<le> n \<and> n \<le> 222 \<and> n \<noteq> 215)
     then char_of (n + 32) else c)"

definition lower :: "string \<Rightarrow> string" where
  "lower s = map lower_char s"



definition string_to_emissions_grid_range :: "string \<Rightarrow> error + GRID_RANGE" where
  "string_to_emissions_grid_range text =
    (if lower text = ''mean'' then Inr MEAN
     else if lower text = ''median'' then Inr MEAN
     else if lower text = ''high'' then Inr HIGH
     else if lower text = ''low'' then Inr LOW
     else Inl (ValueError (''invalid grid range name='' @ text)))"





text \<open>A string is a case variant of another when both lower-case to the same string.\<close>

definition case_variant :: "string \<Rightarrow> string \<Rightarrow> bool" where
  "case_variant s t = (lower s = lower t)"

section \<open>Tables\<close>

text \<open>
  The part of a pandas \<^verbatim>\<open>DataFrame\<close> the module uses: the name of the index, the row
  labels, and the columns in their order, each with one cell per row. A cell is
  \<open>None\<close> while it holds no number (pandas' \<^verbatim>\<open>NaN\<close> of a frame created empty).
\<close>

record DataFrame =
  index_name :: "string option"
  index :: "int list"
  cols :: "(string \<times> rat option list) list"

text \<open>\<^verbatim>\<open>pd.DataFrame(index=idx, columns=names)\<close>: every cell empty.\<close>

definition DataFrame_new :: "int list \<Rightarrow> string list \<Rightarrow> DataFrame" where
  "DataFrame_new idx names =
    \<lparr>index_name = None, index = idx,
     cols = map (\<lambda>c. (c, replicate (length idx) None)) names\<rparr>"

text \<open>\<^verbatim>\<open>df.columns\<close>: the column labels in order.\<close>

definition columns :: "DataFrame \<Rightarrow> string list" where
  "columns df = map fst (cols df)"

text \<open>
  \<^verbatim>\<open>df.loc[:, c] = values\<close> with an array on the right: the array is written into
  column \<open>c\<close> by position and must have one entry per row, else pandas raises a
  \<^verbatim>\<open>ValueError\<close> (its message is not reproduced). A label that is not yet a column is
  appended as the last column.
\<close>

definition loc_set_values :: "DataFrame \<Rightarrow> string \<Rightarrow> rat list \<Rightarrow> error + DataFrame" where
  "loc_set_values df c vs =
    (if length vs = length (index df)
     then Inr (df\<lparr>cols := AList.update c (map Some vs) (cols df)\<rparr>)
     else Inl (ValueError ''length of values does not match length of index''))"

text \<open>\<^verbatim>\<open>df.loc[:, c] = v\<close> with a scalar on the right: every row of column \<open>c\<close> gets \<open>v\<close>.\<close>

definition loc_set_scalar :: "DataFrame \<Rightarrow> string \<Rightarrow> rat \<Rightarrow> DataFrame" where
  "loc_set_scalar df c v =
    df\<lparr>cols := AList.update c (replicate (length (index df)) (Some v)) (cols df)\<rparr>"

text \<open>
  \<^verbatim>\<open>df.loc[y, c]\<close>, read as a number: \<open>None\<close> when the row or the column is missing or
  the cell is empty.
\<close>

definition loc :: "DataFrame \<Rightarrow> int \<Rightarrow> string \<Rightarrow> rat option" where
  "loc df y c =
    (case map_of (cols df) c of
       None \<Rightarrow> None
     | Some vs \<Rightarrow> (case map_of (zip (index df) vs) y of None \<Rightarrow> None | Some v \<Rightarrow> v))"

section \<open>Reference datasets\<close>

text \<open>
  Each reference dataset is a frame built from rows \<^verbatim>\<open>[Year, medium, high, low]\<close>;
  \<^verbatim>\<open>grid.loc[:, "high"].values\<close> is the list of the \<open>high\<close> entries in row order, and
  likewise for the other two columns. The leading underscore of the Python names is
  dropped.
\<close>

datatype grid_row = Row (Year: int) (medium: rat) (high: rat) (low: rat)

text \<open>\<^verbatim>\<open>_world_meta_1\<close>: "Emissions Factors"!A290:D336.\<close>
definition world_meta_1 :: "grid_row list" where
  "world_meta_1 =
    [Row 2015 0.580491641 0.726805942 0.444419682,
     Row 2016 0.580381730 0.726494196 0.444511607,
     Row 2017 0.580191808 0.726117383 0.444508574,
     Row 2018 0.579932742 0.725684840 0.444422987,
     Row 2019 0.579613986 0.725204693 0.444265621,
     Row 2020 0.581083120 0.726403172 0.446005409,
     Row 2021 0.578829123 0.724128766 0.443771822,
     Row 2022 0.578376324 0.723544325 0.443450666,
     Row 2023 0.577890875 0.722935374 0.443088717,
     Row 2024 0.577377675 0.722306095 0.442691597,
     Row 2025 0.576724036 0.721565698 0.442124716,
     Row 2026 0.576284921 0.721000946 0.441811237,
     Row 2027 0.575712661 0.720331282 0.441336382,
     Row 2028 0.575127412 0.719653850 0.440843316,
     Row 2029 0.574531990 0.718971040 0.440335281,
     Row 2030 0.573264022 0.717635960 0.439134425,
     Row 2031 0.573320545 0.717597727 0.439285704,
     Row 2032 0.572708901 0.716910953 0.438749190,
     Row 2033 0.572095895 0.716226301 0.438207831,
     Row 2034 0.571483259 0.715545242 0.437663617,
     Row 2035 0.570821497 0.714820866 0.437064470,
     Row 2036 0.570265395 0.714199285 0.436573847,
     Row 2037 0.569663069 0.713536875 0.436031604,
     Row 2038 0.569066909 0.712883028 0.435493132,
     Row 2039 0.568478136 0.712238796 0.434959817,
     Row 2040 0.567083308 0.710887186 0.433521771,
     Row 2041 0.567327331 0.710983152 0.433913852,
     Row 2042 0.566767481 0.710373641 0.433403663,
     Row 2043 0.566219394 0.709777559 0.432903570,
     Row 2044 0.565684079 0.709195799 0.432414701,
     Row 2045 0.565044176 0.708501694 0.431829000,
     Row 2046 0.564655700 0.708078732 0.431475009,
     Row 2047 0.564164556 0.707545143 0.431026311,
     Row 2048 0.563690051 0.707029331 0.430593113,
     Row 2049 0.563233144 0.706532169 0.430176460,
     Row 2050 0.563942003 0.707108074 0.431018275,
     Row 2051 0.562376012 0.705597348 0.429397017,
     Row 2052 0.561977781 0.705161518 0.429036385,
     Row 2053 0.561601149 0.704748013 0.428696627,
     Row 2054 0.561247194 0.704357833 0.428378896,
     Row 2055 0.560917031 0.703992021 0.428084382,
     Row 2056 0.560611819 0.703651663 0.427814318,
     Row 2057 0.560332776 0.703337903 0.427569991,
     Row 2058 0.560081211 0.703051332 0.427353431,
     Row 2059 0.559858464 0.702793863 0.427165406,
     Row 2060 0.559324305 0.702254712 0.426636240]"

text \<open>\<^verbatim>\<open>_world_ipcc\<close>: "Emissions Factors"!F290:I336.\<close>
definition world_ipcc :: "grid_row list" where
  "world_ipcc =
    [Row 2015 0.484233479886851 0.954301230978324 0.415714611547194,
     Row 2016 0.483874688367180 0.953705808726241 0.415699168023559,
     Row 2017 0.483468578344429 0.953091499730308 0.415616211090683,
     Row 2018 0.483022233781448 0.952462141044895 0.415474739683663,
     Row 2019 0.482541827613129 0.951821094094534 0.415282575858891,
     Row 2020 0.483415642278809 0.952177536197487 0.416520905499686,
     Row 2021 0.481499412617218 0.950514955984204 0.414772457309720,
     Row 2022 0.480945957200632 0.949854330000227 0.414465552432322,
     Row 2023 0.480375890793439 0.949191227373746 0.414130387202149,
     Row 2024 0.479792370097929 0.948527306071946 0.413771028606294,
     Row 2025 0.479129875365096 0.947838144272479 0.413292094853295,
     Row 2026 0.478595824341775 0.947202675323842 0.412993759718887,
     Row 2027 0.477987474489965 0.946544387335615 0.412581910201081,
     Row 2028 0.477375134675864 0.945890189693049 0.412158128728530,
     Row 2029 0.476760604919920 0.945241007845619 0.411724756299051,
     Row 2030 0.475609144710954 0.944163265130839 0.410760518917611,
     Row 2031 0.475531330098496 0.943960978462593 0.410837481063205,
     Row 2032 0.474919397316536 0.943331597296287 0.410387213255880,
     Row 2033 0.474310925799146 0.942710164328208 0.409934674540315,
     Row 2034 0.473707024060823 0.942097253091754 0.409481302620380,
     Row 2035 0.473069619537973 0.941464119365002 0.408987650013088,
     Row 2036 0.472516992530166 0.940899134962305 0.408577287386756,
     Row 2037 0.471932749289687 0.940314944696740 0.408129046349254,
     Row 2038 0.471356840757086 0.939741296080086 0.407684776056632,
     Row 2039 0.470790067978465 0.939178632698648 0.407245483451931,
     Row 2040 0.469678044528875 0.938292812842989 0.406144087639722,
     Row 2041 0.469686967218630 0.938087976021352 0.406385614113651,
     Row 2042 0.469152097173049 0.937560823287853 0.405966833587310,
     Row 2043 0.468629288818192 0.937046343521181 0.405556634681864,
     Row 2044 0.468119232533872 0.936544954506346 0.405155846275011,
     Row 2045 0.467511263814817 0.935948980928557 0.404676293987320,
     Row 2046 0.467140086966888 0.935583127327976 0.404385713672719,
     Row 2047 0.466672338575004 0.935123538476659 0.404017937790258,
     Row 2048 0.466220041675584 0.934678754794794 0.403662724592571,
     Row 2049 0.465783884392082 0.934249237215735 0.403320851377671,
     Row 2050 0.466202378014719 0.934415166260444 0.403919169849744,
     Row 2051 0.464962806154690 0.933437918543026 0.402680273560695,
     Row 2052 0.464579339264012 0.933057121808404 0.402383178115162,
     Row 2053 0.464214935271267 0.932693614309824 0.402102653404484,
     Row 2054 0.463870395799940 0.932347969864178 0.401839564471306,
     Row 2055 0.463546558438388 0.932020795519145 0.401594806949223,
     Row 2056 0.463244298699963 0.931712733709783 0.401369308350724,
     Row 2057 0.462964541559962 0.931424469977991 0.401164041108521,
     Row 2058 0.462707434123228 0.931155096821641 0.400980275898344,
     Row 2059 0.462474856382921 0.930907038457189 0.400818857404330,
     Row 2060 0.462020537057214 0.930512636676233 0.400404559244924]"

text \<open>\<^verbatim>\<open>_world_meta_2\<close>: the 2020 version of the Excel files.\<close>
definition world_meta_2 :: "grid_row list" where
  "world_meta_2 =
    [Row 2015 0.619753649484954 0.834200994227942 0.446911398737087,
     Row 2016 0.613223327855322 0.827419241197181 0.441324423346894,
     Row 2017 0.606715005275064 0.817903147977287 0.436594799095373,
     Row 2018 0.602650482222055 0.811957311805342 0.433711588716669,
     Row 2019 0.599546311600711 0.808809196292089 0.431043861809484,
     Row 2020 0.595844101320605 0.805066315637190 0.427859783304937,
     Row 2021 0.592313613174105 0.801495614192573 0.424823161474647,
     Row 2022 0.588839905934230 0.797975220897886 0.421832598087871,
     Row 2023 0.585449295836798 0.794534135403531 0.418911809360421,
     Row 2024 0.582134106340607 0.791164960038795 0.416054306144423,
     Row 2025 0.579212349557159 0.788184425039760 0.413534464382670,
     Row 2026 0.575701698847632 0.784615063765847 0.410505236766206,
     Row 2027 0.572571412159762 0.781421736177582 0.407802618493011,
     Row 2028 0.569490331287843 0.778275031115247 0.405141116198009,
     Row 2029 0.566452830841887 0.775169515850856 0.402515970114720,
     Row 2030 0.563582610910188 0.772224408553539 0.400032800926231,
     Row 2031 0.560487575191628 0.769061765323778 0.397356976482730,
     Row 2032 0.557549996015452 0.766050030587511 0.394814811934275,
     Row 2033 0.554636302401122 0.763060441667938 0.392292329996334,
     Row 2034 0.551742154484868 0.760088796218024 0.389785854191242,
     Row 2035 0.548784376564443 0.757051944289887 0.387224226526241,
     Row 2036 0.545979252104998 0.754165935635464 0.384793649089973,
     Row 2037 0.543106698312767 0.751211316808699 0.382304463418555,
     Row 2038 0.540236787794954 0.748258161570859 0.379817005842378,
     Row 2039 0.537352597396159 0.745289123477943 0.377317616531354,
     Row 2040 0.534257808148527 0.742113543256056 0.374637411133684,
     Row 2041 0.531581023073820 0.739345510659962 0.372313849192314,
     Row 2042 0.528685258247064 0.736362655581270 0.369802465048003,
     Row 2043 0.525775521926616 0.733365101778856 0.367278694303595,
     Row 2044 0.522848765756972 0.730349877395092 0.364739945323485,
     Row 2045 0.519796747547837 0.727206616166885 0.362092302098936,
     Row 2046 0.516932341500910 0.724254851488976 0.359607432066743,
     Row 2047 0.513936894157109 0.721169405528371 0.357008750494339,
     Row 2048 0.510912853777991 0.718054985950131 0.354385243670808,
     Row 2049 0.508316537396635 0.715381773638989 0.352134907312678,
     Row 2050 0.506594921787481 0.713622488394168 0.350653654650227,
     Row 2051 0.504688929275709 0.711690195955989 0.349010631116045,
     Row 2052 0.502854324722711 0.709827677277282 0.347428887775673,
     Row 2053 0.500981466874364 0.707928699401097 0.345814547929372,
     Row 2054 0.499068430228993 0.705991414176679 0.344165978406253,
     Row 2055 0.497072403296562 0.703969699319331 0.342445358912229,
     Row 2056 0.495114656946048 0.701995050774066 0.340760075761759,
     Row 2057 0.493070596435275 0.699932787017676 0.338999924825479,
     Row 2058 0.490979702541600 0.697825838098367 0.337199902765339,
     Row 2059 0.488840556318235 0.695672846558836 0.335358807437345,
     Row 2060 0.486810301162345 0.693612676011530 0.333607332510495]"

text \<open>\<^verbatim>\<open>_world_meta_3\<close>: the variant of solutions like Bike Infrastructure.\<close>
definition world_meta_3 :: "grid_row list" where
  "world_meta_3 =
    [Row 2015 0.617381627523255 0.830817877069664 0.446511800066534,
     Row 2016 0.613053711917674 0.824698901512021 0.443404400078671,
     Row 2017 0.605559021113794 0.815532512015463 0.437490678056033,
     Row 2018 0.599823764037522 0.807926586189615 0.433230012701179,
     Row 2019 0.596692109138654 0.804739279793431 0.430557603413934,
     Row 2020 0.592956465174414 0.800948724769081 0.427367828954101,
     Row 2021 0.589394210498330 0.797332726214472 0.424325795194590,
     Row 2022 0.585889940804312 0.793768752747037 0.421330025011830,
     Row 2023 0.582469966488571 0.790285795690257 0.418404233626765,
     Row 2024 0.579126508336472 0.786876310967440 0.415541914399482,
     Row 2025 0.576180723793771 0.783861513867133 0.413017979130062,
     Row 2026 0.572640473126760 0.780249944881284 0.409983708694097,
     Row 2027 0.569484653817574 0.777020209351351 0.407276740536253,
     Row 2028 0.566378787697806 0.773838162055771 0.404611015683456,
     Row 2029 0.563317175272247 0.770698264597087 0.401981761744236,
     Row 2030 0.560425096459919 0.767721987885512 0.399494868550752,
     Row 2031 0.557305440093151 0.764524237131432 0.396814849591601,
     Row 2032 0.554345365121137 0.761480424779140 0.394268852529604,
     Row 2033 0.551409591841439 0.758459351619903 0.391742608972507,
     Row 2034 0.548493724307989 0.755456735336789 0.389232432888142,
     Row 2035 0.545513743488868 0.752388223445871 0.386667022609245,
     Row 2036 0.542688055628436 0.749472892651180 0.384232941873367,
     Row 2037 0.539794403434954 0.746488188806800 0.381740161756609,
     Row 2038 0.536903541206374 0.743505157722919 0.379249134726127,
     Row 2039 0.533998346916998 0.740506169378769 0.376746167071146,
     Row 2040 0.530880184208068 0.737297260044097 0.374061979635782,
     Row 2041 0.528185054593160 0.734503069266229 0.371735292412725,
     Row 2042 0.525268472346747 0.731490529832329 0.369220361692718,
     Row 2043 0.522337858549740 0.728463206037271 0.366693034140975,
     Row 2044 0.519390127508675 0.725418072781803 0.364150711760779,
     Row 2045 0.516316182594658 0.722243545426141 0.361499332976304,
     Row 2046 0.513431317163278 0.719262606929121 0.359010977365359,
     Row 2047 0.510414388803142 0.716146530365413 0.356408636163102,
     Row 2048 0.507368630222783 0.713001141973038 0.353781429301529,
     Row 2049 0.504753471538005 0.710301061700499 0.351527882859898,
     Row 2050 0.503017662563427 0.708521537592850 0.350044212133840,
     Row 2051 0.501095097574196 0.706565613824964 0.348398365216802,
     Row 2052 0.499244741360773 0.704680634250964 0.346813938332699,
     Row 2053 0.497355610112209 0.702758451510754 0.345196826056066,
     Row 2054 0.495425752440293 0.700797180540976 0.343545390805835,
     Row 2055 0.493412239186826 0.698750531269397 0.341821792241291,
     Row 2056 0.491436597471548 0.696750365038799 0.340133460333253,
     Row 2057 0.489373931181422 0.694661570589733 0.338370139609077,
     Row 2058 0.487263793557604 0.692527181299305 0.336566839076065,
     Row 2059 0.485104746166210 0.690345811922819 0.334722353270288,
     Row 2060 0.483057064536976 0.688260792300398 0.332967909468916]"

text \<open>\<^verbatim>\<open>_world_meta_4\<close>: used in Drawdown 2020 Alternative Cement.\<close>
definition world_meta_4 :: "grid_row list" where
  "world_meta_4 =
    [Row 2015 0.619731238862595 0.833329897638502 0.447394567903417,
     Row 2016 0.613191401904823 0.826475738292122 0.441840091403282,
     Row 2017 0.606673460423821 0.816888151363190 0.437142332630907,
     Row 2018 0.602621620826105 0.810921431890408 0.434283943572488,
     Row 2019 0.599517169584422 0.807763244481335 0.431621781691129,
     Row 2020 0.595814617939265 0.804008111709454 0.428444472850274,
     Row 2021 0.592283805449719 0.800425769093762 0.425414283117659,
     Row 2022 0.588809786160664 0.796894175873816 0.422429908026953,
     Row 2023 0.585418876248296 0.793442329560030 0.419515064976376,
     Row 2024 0.582103398123095 0.790062794855959 0.416663285607405,
     Row 2025 0.579181396011097 0.787073454637732 0.414148308994488,
     Row 2026 0.575670443079687 0.783493246155346 0.411125074787444,
     Row 2027 0.572539895698304 0.780290561875727 0.408427626368065,
     Row 2028 0.569458561763715 0.777134774004723 0.405771142598445,
     Row 2029 0.566420815129301 0.774020422657726 0.403150878716958,
     Row 2030 0.563550372013766 0.771067304949067 0.400672135522024,
     Row 2031 0.560455084913133 0.767895639229866 0.398001296275715,
     Row 2032 0.557517276050081 0.764875660678135 0.395463686683625,
     Row 2033 0.554603356997654 0.761877980438385 0.392945675443809,
     Row 2034 0.551708987319473 0.758898375611644 0.390443597434166,
     Row 2035 0.548750982702714 0.755853387203211 0.387886465419616,
     Row 2036 0.545945648286556 0.752959842879268 0.385460051667747,
     Row 2037 0.543072879075145 0.749997492326640 0.382975138007765,
     Row 2038 0.540202754635895 0.747036659119172 0.380491922741082,
     Row 2039 0.537318349782893 0.744059923934800 0.377996786304940,
     Row 2040 0.534223321887233 0.740875778267926 0.375321313573634,
     Row 2041 0.531546349510856 0.738101023126640 0.373001466040980,
     Row 2042 0.528650372133802 0.735110539290677 0.370494297014854,
     Row 2043 0.525740422649863 0.732105334722523 0.367974753548975,
     Row 2044 0.522813452322305 0.729082423881671 0.365440251567938,
     Row 2045 0.519761210236833 0.725931127387228 0.362797048070022,
     Row 2046 0.516896595295224 0.722971865157726 0.360316320660926,
     Row 2047 0.513900928625662 0.719878547258031 0.357721988571989,
     Row 2048 0.510876666499075 0.716756168821856 0.355102879257204,
     Row 2049 0.508280157733779 0.714076051555076 0.352856358095056,
     Row 2050 0.506558397207335 0.712311565005700 0.351377979310044,
     Row 2051 0.504652235487031 0.710373199412923 0.349738311376714,
     Row 2052 0.502817470106218 0.708504908376451 0.348159757437882,
     Row 2053 0.500944446102982 0.706599966945595 0.346548712635171,
     Row 2054 0.499031237711340 0.704656517483214 0.344903549039207,
     Row 2055 0.497035032239839 0.702628394583901 0.343186470181391,
     Row 2056 0.495077103173832 0.700647188098395 0.341504810490442,
     Row 2057 0.493032852694081 0.698578106063043 0.339748426858670,
     Row 2058 0.490941762317814 0.696464105081149 0.337952301275530,
     Row 2059 0.488802412899276 0.694303820554168 0.336115235542782,
     Row 2060 0.486771979815374 0.692237263896700 0.334367289134159]"

section \<open>\<^verbatim>\<open>class ElectricityGenOnGrid\<close>\<close>

text \<open>The two attributes of the advanced-controls object \<^verbatim>\<open>ac\<close> that the class reads.\<close>

record AdvancedControls =
  emissions_grid_source :: GRID_SOURCE
  emissions_grid_range :: GRID_RANGE

record ElectricityGenOnGrid =
  ac :: AdvancedControls
  grid_emissions_version :: int

text \<open>
  \<^verbatim>\<open>__init__(self, ac, grid_emissions_version=1)\<close>; the second argument is \<open>None\<close>
  when the caller omits it.
\<close>

definition ElectricityGenOnGrid_init :: "AdvancedControls \<Rightarrow> int option \<Rightarrow> ElectricityGenOnGrid" where
  "ElectricityGenOnGrid_init a ver =
    \<lparr>ac = a, grid_emissions_version = (case ver of None \<Rightarrow> 1 | Some v \<Rightarrow> v)\<rparr>"

definition region_columns :: "string list" where
  "region_columns =
    [''World'', ''OECD90'', ''Eastern Europe'', ''Asia (Sans Japan)'',
     ''Middle East and Africa'', ''Latin America'', ''China'', ''India'', ''EU'', ''USA'']"

definition conv_ref_grid_CO2eq_per_KWh :: "ElectricityGenOnGrid \<Rightarrow> error + DataFrame" where
  "conv_ref_grid_CO2eq_per_KWh self =
    (let result = DataFrame_new [2015..2060] region_columns;
         result = result\<lparr>index_name := Some ''Year''\<rparr>
     in
     case
       (if emissions_grid_source (ac self) = IPCC then Inr world_ipcc
        else if emissions_grid_source (ac self) = META \<and> grid_emissions_version self = 1
          then Inr world_meta_1
        else if emissions_grid_source (ac self) = META \<and> grid_emissions_version self = 2
          then Inr world_meta_2
        else if emissions_grid_source (ac self) = META \<and> grid_emissions_version self = 3
          then Inr world_meta_3
        else if emissions_grid_source (ac self) = META \<and> grid_emissions_version self = 4
          then Inr world_meta_4
        else Inl (ValueError (''Invalid self.ac.emissions_grid_source '' @
                              str_GRID_SOURCE (emissions_grid_source (ac self)))))
     of
       Inl e \<Rightarrow> Inl e
     | Inr grid \<Rightarrow>
        (case
           (if emissions_grid_range (ac self) = HIGH
              then loc_set_values result ''World'' (map high grid)
            else if emissions_grid_range (ac self) = LOW
              then loc_set_values result ''World'' (map low grid)
            else if emissions_grid_range (ac self) = MEAN
              then loc_set_values result ''World'' (map medium grid)
            else Inl (ValueError (''Invalid ac.emissions_grid_range '' @
                                  str_GRID_RANGE (emissions_grid_range (ac self)))))
         of
           Inl e \<Rightarrow> Inl e
         | Inr result \<Rightarrow>
            (let result = loc_set_scalar result ''OECD90'' 0.454068989;
                 result = loc_set_scalar result ''Eastern Europe'' 0.724747956;
                 result = loc_set_scalar result ''Asia (Sans Japan)'' 0.457658947;
                 result = loc_set_scalar result ''Middle East and Africa'' 0.282243907;
                 result = loc_set_scalar result ''Latin America'' 0.564394712;
                 result = loc_set_scalar result ''China'' 0.535962403;
                 result = loc_set_scalar result ''India'' 0.787832379;
                 result = loc_set_scalar result ''EU'' 0.360629290;
                 result = loc_set_scalar result ''USA'' 0.665071666
             in Inr result)))"

definition conv_ref_grid_CO2_per_KWh :: "ElectricityGenOnGrid \<Rightarrow> error + DataFrame" where
  "conv_ref_grid_CO2_per_KWh self =
    (let result = DataFrame_new [2015..2060] region_columns;
         result = result\<lparr>index_name := Some ''Year''\<rparr>;
         result = loc_set_scalar result ''World'' 0.484512031078339;
         result = loc_set_scalar result ''OECD90'' 0.392126590013504;
         result = loc_set_scalar result ''Eastern Europe'' 0.659977316856384;
         result = loc_set_scalar result ''Asia (Sans Japan)'' 0.385555833578110;
         result = loc_set_scalar result ''Middle East and Africa'' 0.185499981045723;
         result = loc_set_scalar result ''Latin America'' 0.491537630558014;
         result = loc_set_scalar result ''China'' 0.474730312824249;
         result = loc_set_scalar result ''India'' 0.725081980228424;
         result = loc_set_scalar result ''EU'' 0.297016531229019;
         result = loc_set_scalar result ''USA'' 0.594563066959381
     in Inr result)"

text \<open>
  \<^verbatim>\<open>str(n)\<close> of a Python integer, and \<^verbatim>\<open>sub in s\<close> on strings; they are used to say
  what an error message names.
\<close>

fun str_nat :: "nat \<Rightarrow> string" where
  "str_nat n =
    (if n < 10 then [char_of (48 + n)]
     else str_nat (n div 10) @ [char_of (48 + n mod 10)])"

definition str_int :: "int \<Rightarrow> string" where
  "str_int i = (if i < 0 then CHR ''-'' # str_nat (nat (- i)) else str_nat (nat i))"

fun starts_with :: "string \<Rightarrow> string \<Rightarrow> bool" where
  "starts_with s [] = True"
| "starts_with [] (c # sub) = False"
| "starts_with (d # s) (c # sub) = (d = c \<and> starts_with s sub)"

fun str_contains :: "string \<Rightarrow> string \<Rightarrow> bool" where
  "str_contains [] sub = (sub = [])"
| "str_contains (d # s) sub = (starts_with (d # s) sub \<or> str_contains s sub)"

section \<open>Result tables\<close>

text \<open>
  Names for the tables the two methods build, used to state what they return. The column of
  a reference dataset that a grid range selects (\<^verbatim>\<open>HIGH\<close> reads \<^verbatim>\<open>"high"\<close>, \<^verbatim>\<open>LOW\<close>
  reads \<^verbatim>\<open>"low"\<close>, \<^verbatim>\<open>MEAN\<close> reads \<^verbatim>\<open>"medium"\<close>):
\<close>

definition range_column :: "GRID_RANGE \<Rightarrow> grid_row list \<Rightarrow> rat list" where
  "range_column r grid = (case r of HIGH \<Rightarrow> map high grid | LOW \<Rightarrow> map low grid | MEAN \<Rightarrow> map medium grid)"

text \<open>The nine region columns that \<^verbatim>\<open>conv_ref_grid_CO2eq_per_KWh\<close> fills with scalars.\<close>

definition region_constants :: "(string \<times> rat option list) list" where
  "region_constants =
    [(''OECD90'', replicate 46 (Some 0.454068989)),
     (''Eastern Europe'', replicate 46 (Some 0.724747956)),
     (''Asia (Sans Japan)'', replicate 46 (Some 0.457658947)),
     (''Middle East and Africa'', replicate 46 (Some 0.282243907)),
     (''Latin America'', replicate 46 (Some 0.564394712)),
     (''China'', replicate 46 (Some 0.535962403)),
     (''India'', replicate 46 (Some 0.787832379)),
     (''EU'', replicate 46 (Some 0.360629290)),
     (''USA'', replicate 46 (Some 0.665071666))]"

text \<open>The frame with the years 2015 to 2060, a given World column and those region columns.\<close>

definition yearly_table :: "rat list \<Rightarrow> DataFrame" where
  "yearly_table w = \<lparr>index_name = Some ''Year'', index = [2015..2060],
           cols = (''World'', map Some w) # region_constants\<rparr>"

text \<open>The ten columns that \<^verbatim>\<open>conv_ref_grid_CO2_per_KWh\<close> fills with scalars.\<close>

definition direct_constants :: "(string \<times> rat option list) list" where
  "direct_constants =
    [(''World'', replicate 46 (Some 0.484512031078339)),
     (''OECD90'', replicate 46 (Some 0.392126590013504)),
     (''Eastern Europe'', replicate 46 (Some 0.659977316856384)),
     (''Asia (Sans Japan)'', replicate 46 (Some 0.385555833578110)),
     (''Middle East and Africa'', replicate 46 (Some 0.185499981045723)),
     (''Latin America'', replicate 46 (Some 0.491537630558014)),
     (''China'', replicate 46 (Some 0.474730312824249)),
     (''India'', replicate 46 (Some 0.725081980228424)),
     (''EU'', replicate 46 (Some 0.297016531229019)),
     (''USA'', replicate 46 (Some 0.594563066959381))]"

section \<open>What the grid-table resolver returns\<close>

text \<open>The frame has one row per year, 46 in all, and every reference dataset has 46 rows.\<close>

lemma length_years: "length [2015..2060::int] = 46"
  by simp

lemma length_world_ipcc: "length world_ipcc = 46"
  by (simp add: world_ipcc_def)

lemma length_world_meta_1: "length world_meta_1 = 46"
  by (simp add: world_meta_1_def)

lemma length_world_meta_2: "length world_meta_2 = 46"
  by (simp add: world_meta_2_def)

lemma length_world_meta_3: "length world_meta_3 = 46"
  by (simp add: world_meta_3_def)

lemma length_world_meta_4: "length world_meta_4 = 46"
  by (simp add: world_meta_4_def)

lemmas length_world = length_world_ipcc length_world_meta_1 length_world_meta_2
  length_world_meta_3 length_world_meta_4

text \<open>Writing a World column of 46 values and then the nine scalars into the empty frame.\<close>

lemma assemble:
  assumes "length w = 46"
  shows "(case loc_set_values ((DataFrame_new [2015..2060] region_columns)\<lparr>index_name := Some ''Year''\<rparr>) ''World'' w of
      Inl e \<Rightarrow> Inl e
    | Inr result \<Rightarrow>
            (let result = loc_set_scalar result ''OECD90'' 0.454068989;
                 result = loc_set_scalar result ''Eastern Europe'' 0.724747956;
                 result = loc_set_scalar result ''Asia (Sans Japan)'' 0.457658947;
                 result = loc_set_scalar result ''Middle East and Africa'' 0.282243907;
                 result = loc_set_scalar result ''Latin America'' 0.564394712;
                 result = loc_set_scalar result ''China'' 0.535962403;
                 result = loc_set_scalar result ''India'' 0.787832379;
                 result = loc_set_scalar result ''EU'' 0.360629290;
                 result = loc_set_scalar result ''USA'' 0.665071666
             in Inr result))
    = Inr \<lparr>index_name = Some ''Year'', index = [2015..2060],
           cols = (''World'', map Some w) # region_constants\<rparr>"
  using assms
  by (simp add: loc_set_values_def loc_set_scalar_def DataFrame_new_def region_columns_def
      region_constants_def Let_def del: upto_rec_numeral)

lemma length_range_column: "length (range_column r g) = length g"
  by (cases r) (simp_all add: range_column_def)

text \<open>The result for each branch of the dataset selection.\<close>

lemma conv_IPCC:
  assumes "emissions_grid_source (ac self) = IPCC"
  shows "conv_ref_grid_CO2eq_per_KWh self =
    Inr (yearly_table (range_column (emissions_grid_range (ac self)) world_ipcc))"
  unfolding conv_ref_grid_CO2eq_per_KWh_def yearly_table_def Let_def
  using assms
  by (cases "emissions_grid_range (ac self)")
     (simp_all only: range_column_def assemble[unfolded Let_def] length_world length_map
        GRID_RANGE.simps GRID_SOURCE.simps if_True if_False simp_thms sum.case refl
        str_GRID_SOURCE.simps append.simps
        split: if_split)

lemma conv_META_1:
  assumes "emissions_grid_source (ac self) = META" and "grid_emissions_version self = 1"
  shows "conv_ref_grid_CO2eq_per_KWh self =
    Inr (yearly_table (range_column (emissions_grid_range (ac self)) world_meta_1))"
  unfolding conv_ref_grid_CO2eq_per_KWh_def yearly_table_def Let_def
  using assms
  by (cases "emissions_grid_range (ac self)")
     (simp_all only: range_column_def assemble[unfolded Let_def] length_world length_map
        GRID_RANGE.simps GRID_SOURCE.simps if_True if_False simp_thms sum.case refl
        str_GRID_SOURCE.simps append.simps
        numeral_eq_iff numeral_eq_one_iff one_eq_numeral_iff num.simps)

lemma conv_META_2:
  assumes "emissions_grid_source (ac self) = META" and "grid_emissions_version self = 2"
  shows "conv_ref_grid_CO2eq_per_KWh self =
    Inr (yearly_table (range_column (emissions_grid_range (ac self)) world_meta_2))"
  unfolding conv_ref_grid_CO2eq_per_KWh_def yearly_table_def Let_def
  using assms
  by (cases "emissions_grid_range (ac self)")
     (simp_all only: range_column_def assemble[unfolded Let_def] length_world length_map
        GRID_RANGE.simps GRID_SOURCE.simps if_True if_False simp_thms sum.case refl
        str_GRID_SOURCE.simps append.simps
        numeral_eq_iff numeral_eq_one_iff one_eq_numeral_iff num.simps)

lemma conv_META_3:
  assumes "emissions_grid_source (ac self) = META" and "grid_emissions_version self = 3"
  shows "conv_ref_grid_CO2eq_per_KWh self =
    Inr (yearly_table (range_column (emissions_grid_range (ac self)) world_meta_3))"
  unfolding conv_ref_grid_CO2eq_per_KWh_def yearly_table_def Let_def
  using assms
  by (cases "emissions_grid_range (ac self)")
     (simp_all only: range_column_def assemble[unfolded Let_def] length_world length_map
        GRID_RANGE.simps GRID_SOURCE.simps if_True if_False simp_thms sum.case refl
        str_GRID_SOURCE.simps append.simps
        numeral_eq_iff numeral_eq_one_iff one_eq_numeral_iff num.simps)

lemma conv_META_4:
  assumes "emissions_grid_source (ac self) = META" and "grid_emissions_version self = 4"
  shows "conv_ref_grid_CO2eq_per_KWh self =
    Inr (yearly_table (range_column (emissions_grid_range (ac self)) world_meta_4))"
  unfolding conv_ref_grid_CO2eq_per_KWh_def yearly_table_def Let_def
  using assms
  by (cases "emissions_grid_range (ac self)")
     (simp_all only: range_column_def assemble[unfolded Let_def] length_world length_map
        GRID_RANGE.simps GRID_SOURCE.simps if_True if_False simp_thms sum.case refl
        str_GRID_SOURCE.simps append.simps
        numeral_eq_iff numeral_eq_one_iff one_eq_numeral_iff num.simps)

lemma conv_META_other:
  assumes "emissions_grid_source (ac self) = META"
    and "grid_emissions_version self \<noteq> 1" and "grid_emissions_version self \<noteq> 2"
    and "grid_emissions_version self \<noteq> 3" and "grid_emissions_version self \<noteq> 4"
  shows "conv_ref_grid_CO2eq_per_KWh self =
    Inl (ValueError ''Invalid self.ac.emissions_grid_source GRID_SOURCE.META'')"
  unfolding conv_ref_grid_CO2eq_per_KWh_def Let_def
  using assms
  by (simp only: GRID_SOURCE.simps if_True if_False simp_thms sum.case refl
        str_GRID_SOURCE.simps append.simps)

text \<open>Reading cells of the result.\<close>

lemma map_of_zip_replicate:
  "y \<in> set idx \<Longrightarrow> map_of (zip idx (replicate (length idx) v)) y = Some v"
  by (induction idx) auto

lemma map_of_years_replicate:
  assumes "y \<in> set [2015..2060]"
  shows "map_of (zip [2015..2060] (replicate 46 v)) y = Some v"
  using map_of_zip_replicate[OF assms, of v] by (simp only: length_years)

lemma map_of_zip_years:
  assumes "length w = 46" and "2015 \<le> y" and "y \<le> 2060"
  shows "map_of (zip [2015..2060] w) y = Some (w ! nat (y - 2015))"
proof -
  let ?k = "nat (y - 2015)"
  have k: "?k < 46" using assms by simp
  have nth: "[2015..2060] ! ?k = y" using assms by (simp del: upto_rec_numeral)
  have "map_of (zip [2015..2060] w) ([2015..2060] ! ?k) = Some (w ! ?k)"
    using assms k by (intro map_of_zip_nth) (simp_all del: upto_rec_numeral)
  then show ?thesis by (simp only: nth)
qed

text \<open>Every configuration with the IPCC source or a version from 1 to 4 yields a table.\<close>

lemma conv_valid:
  assumes "emissions_grid_source (ac self) = IPCC \<or> grid_emissions_version self \<in> {1, 2, 3, 4}"
  shows "\<exists>w. length w = 46 \<and> conv_ref_grid_CO2eq_per_KWh self = Inr (yearly_table w)"
proof (cases "emissions_grid_source (ac self)")
  case IPCC
  then show ?thesis
    by (simp only: conv_IPCC) (blast intro: trans[OF length_range_column length_world_ipcc])
next
  case META
  with assms consider "grid_emissions_version self = 1" | "grid_emissions_version self = 2"
    | "grid_emissions_version self = 3" | "grid_emissions_version self = 4" by auto
  then show ?thesis
  proof cases
    case 1 with META show ?thesis
      by (simp only: conv_META_1) (blast intro: trans[OF length_range_column length_world_meta_1])
  next
    case 2 with META show ?thesis
      by (simp only: conv_META_2) (blast intro: trans[OF length_range_column length_world_meta_2])
  next
    case 3 with META show ?thesis
      by (simp only: conv_META_3) (blast intro: trans[OF length_range_column length_world_meta_3])
  next
    case 4 with META show ?thesis
      by (simp only: conv_META_4) (blast intro: trans[OF length_range_column length_world_meta_4])
  qed
qed

lemma index_yearly_table: "index (yearly_table w) = [2015..2060]"
  by (simp add: yearly_table_def del: upto_rec_numeral)

lemma columns_yearly_table:
  "columns (yearly_table w) =
    [''World'', ''OECD90'', ''Eastern Europe'', ''Asia (Sans Japan)'',
     ''Middle East and Africa'', ''Latin America'', ''China'', ''India'', ''EU'', ''USA'']"
  by (simp add: yearly_table_def columns_def region_constants_def del: upto_rec_numeral)

lemma cols_lengths_yearly_table:
  "length w = 46 \<Longrightarrow> list_all (\<lambda>(c, vs). length vs = 46) (cols (yearly_table w))"
  by (simp add: yearly_table_def region_constants_def del: upto_rec_numeral)

lemma loc_region_yearly_table:
  assumes "y \<in> set [2015..2060]"
  shows "loc (yearly_table w) y ''OECD90'' = Some 0.454068989"
    and "loc (yearly_table w) y ''Eastern Europe'' = Some 0.724747956"
    and "loc (yearly_table w) y ''Asia (Sans Japan)'' = Some 0.457658947"
    and "loc (yearly_table w) y ''Middle East and Africa'' = Some 0.282243907"
    and "loc (yearly_table w) y ''Latin America'' = Some 0.564394712"
    and "loc (yearly_table w) y ''China'' = Some 0.535962403"
    and "loc (yearly_table w) y ''India'' = Some 0.787832379"
    and "loc (yearly_table w) y ''EU'' = Some 0.360629290"
    and "loc (yearly_table w) y ''USA'' = Some 0.665071666"
  using assms
  by (simp_all add: loc_def yearly_table_def region_constants_def map_of_years_replicate
      del: upto_rec_numeral set_upto)

lemma loc_World_yearly_table:
  assumes "length w = 46" and "2015 \<le> y" and "y \<le> 2060"
  shows "loc (yearly_table w) y ''World'' = Some (w ! nat (y - 2015))"
  using map_of_zip_years[of "map Some w" y] assms
  by (simp add: loc_def yearly_table_def del: upto_rec_numeral)

text \<open>The direct-emissions table.\<close>

lemma conv_CO2_result:
  "conv_ref_grid_CO2_per_KWh self =
    Inr \<lparr>index_name = Some ''Year'', index = [2015..2060], cols = direct_constants\<rparr>"
  by (simp add: conv_ref_grid_CO2_per_KWh_def loc_set_scalar_def DataFrame_new_def
      region_columns_def direct_constants_def Let_def del: upto_rec_numeral)

lemma direct_constants_constant:
  "(c, vs) \<in> set direct_constants \<Longrightarrow> \<exists>v. vs = replicate 46 (Some v)"
  by (auto simp: direct_constants_def)

lemma loc_constant_column:
  assumes "map_of cs c = Some (replicate 46 (Some v))" and "y \<in> set [2015..2060]"
  shows "loc \<lparr>index_name = n, index = [2015..2060], cols = cs\<rparr> y c = Some v"
  using assms by (simp add: loc_def map_of_years_replicate del: upto_rec_numeral set_upto)

text \<open>Lower-casing the two spellings of the mean.\<close>

lemma lower_mean: "lower ''mean'' = ''mean''"
  by code_simp

lemma lower_median: "lower ''median'' = ''median''"
  by code_simp

text \<open>Looking up a column of the direct-emissions table.\<close>

lemma direct_constants_lookup:
  "c \<in> set (map fst direct_constants) \<Longrightarrow>
    \<exists>v. map_of direct_constants c = Some (replicate 46 (Some v))"
proof -
  assume "c \<in> set (map fst direct_constants)"
  then obtain vs where vs: "map_of direct_constants c = Some vs"
    by (cases "map_of direct_constants c") (auto simp: map_of_eq_None_iff)
  then have "(c, vs) \<in> set direct_constants" by (rule map_of_SomeD)
  then obtain v where "vs = replicate 46 (Some v)"
    using direct_constants_constant by blast
  with vs show ?thesis by blast
qed

lemma direct_constants_World:
  "map_of direct_constants ''World'' = Some (replicate 46 (Some 0.484512031078339))"
  by (simp add: direct_constants_def)

section \<open>Specified properties\<close>

text \<open>
  C1. For grid source META, grid range LOW and dataset version 3, the table returned by
  \<^verbatim>\<open>conv_ref_grid_CO2eq_per_KWh\<close> has 0.350044212133840 in its "World" column at year
  2050, which is the \<open>low\<close> value of the META version 3 dataset at that year.
\<close>

theorem meta_v3_low_world_2050:
  "(\<exists>df. conv_ref_grid_CO2eq_per_KWh
          \<lparr>ac = \<lparr>emissions_grid_source = META, emissions_grid_range = LOW\<rparr>,
           grid_emissions_version = 3\<rparr> = Inr df
        \<and> loc df 2050 ''World'' = Some 0.350044212133840)
   \<and> map_of (map (\<lambda>r. (Year r, low r)) world_meta_3) 2050 = Some 0.350044212133840"
proof -
  let ?self = "\<lparr>ac = \<lparr>emissions_grid_source = META, emissions_grid_range = LOW\<rparr>,
           grid_emissions_version = 3\<rparr>"
  have c: "conv_ref_grid_CO2eq_per_KWh ?self = Inr (yearly_table (map low world_meta_3))"
    by (simp add: conv_META_3 range_column_def)
  have n: "map low world_meta_3 ! 35 = 0.350044212133840"
    by (simp add: world_meta_3_def)
  have "loc (yearly_table (map low world_meta_3)) 2050 ''World'' = Some 0.350044212133840"
    using loc_World_yearly_table[of "map low world_meta_3" 2050] n
    by (simp add: length_world_meta_3)
  moreover have "map_of (map (\<lambda>r. (Year r, low r)) world_meta_3) 2050 = Some 0.350044212133840"
    by (simp add: world_meta_3_def)
  ultimately show ?thesis using c by simp
qed

text \<open>
  C2. For grid source IPCC and grid range HIGH the returned table has 0.954301230978324 in
  its "World" column at year 2015, the \<open>high\<close> value of the IPCC dataset at that year,
  whatever the dataset version \<open>v\<close> is; two versions \<open>v\<close> and \<open>v'\<close> give the same result.
\<close>

theorem ipcc_high_world_2015:
  "(\<exists>df. conv_ref_grid_CO2eq_per_KWh
          \<lparr>ac = \<lparr>emissions_grid_source = IPCC, emissions_grid_range = HIGH\<rparr>,
           grid_emissions_version = v\<rparr> = Inr df
        \<and> loc df 2015 ''World'' = Some 0.954301230978324)
   \<and> conv_ref_grid_CO2eq_per_KWh
          \<lparr>ac = \<lparr>emissions_grid_source = IPCC, emissions_grid_range = HIGH\<rparr>,
           grid_emissions_version = v\<rparr>
     = conv_ref_grid_CO2eq_per_KWh
          \<lparr>ac = \<lparr>emissions_grid_source = IPCC, emissions_grid_range = HIGH\<rparr>,
           grid_emissions_version = v'\<rparr>
   \<and> map_of (map (\<lambda>r. (Year r, high r)) world_ipcc) 2015 = Some 0.954301230978324"
proof -
  have c: "\<And>u. conv_ref_grid_CO2eq_per_KWh
          \<lparr>ac = \<lparr>emissions_grid_source = IPCC, emissions_grid_range = HIGH\<rparr>,
           grid_emissions_version = u\<rparr> = Inr (yearly_table (map high world_ipcc))"
    by (simp add: conv_IPCC range_column_def)
  have n: "map high world_ipcc ! 0 = 0.954301230978324"
    by (simp add: world_ipcc_def)
  have "loc (yearly_table (map high world_ipcc)) 2015 ''World'' = Some 0.954301230978324"
    using loc_World_yearly_table[of "map high world_ipcc" 2015] n
    by (simp add: length_world_ipcc)
  moreover have "map_of (map (\<lambda>r. (Year r, high r)) world_ipcc) 2015 = Some 0.954301230978324"
    by (simp add: world_ipcc_def)
  ultimately show ?thesis by (simp add: c)
qed

text \<open>
  C3. For every grid source, every grid range and every dataset version from 1 to 4, the
  nine region columns other than "World" hold the same constant in every row of the
  returned table: OECD90 0.454068989, Eastern Europe 0.724747956, Asia (Sans Japan)
  0.457658947, Middle East and Africa 0.282243907, Latin America 0.564394712, China
  0.535962403, India 0.787832379, EU 0.360629290, USA 0.665071666.
\<close>

theorem region_columns_constant:
  assumes "grid_emissions_version self \<in> {1, 2, 3, 4}"
  shows "\<exists>df. conv_ref_grid_CO2eq_per_KWh self = Inr df \<and>
    (\<forall>y \<in> set (index df).
        loc df y ''OECD90'' = Some 0.454068989
      \<and> loc df y ''Eastern Europe'' = Some 0.724747956
      \<and> loc df y ''Asia (Sans Japan)'' = Some 0.457658947
      \<and> loc df y ''Middle East and Africa'' = Some 0.282243907
      \<and> loc df y ''Latin America'' = Some 0.564394712
      \<and> loc df y ''China'' = Some 0.535962403
      \<and> loc df y ''India'' = Some 0.787832379
      \<and> loc df y ''EU'' = Some 0.360629290
      \<and> loc df y ''USA'' = Some 0.665071666)"
proof -
  from assms obtain w where w: "conv_ref_grid_CO2eq_per_KWh self = Inr (yearly_table w)"
    using conv_valid[of self] by blast
  show ?thesis
    unfolding w
    by (intro exI[of _ "yearly_table w"] conjI ballI refl loc_region_yearly_table)
       (simp_all only: index_yearly_table)
qed

text \<open>The same at META, HIGH, version 2, read at the year 2033.\<close>

theorem region_columns_constant_witness:
  "grid_emissions_version \<lparr>ac = \<lparr>emissions_grid_source = META, emissions_grid_range = HIGH\<rparr>,
           grid_emissions_version = 2\<rparr> \<in> {1, 2, 3, 4}
   \<and> (\<exists>df. conv_ref_grid_CO2eq_per_KWh
          \<lparr>ac = \<lparr>emissions_grid_source = META, emissions_grid_range = HIGH\<rparr>,
           grid_emissions_version = 2\<rparr> = Inr df
        \<and> 2033 \<in> set (index df)
        \<and> loc df 2033 ''OECD90'' = Some 0.454068989
        \<and> loc df 2033 ''USA'' = Some 0.665071666)"
proof -
  let ?self = "\<lparr>ac = \<lparr>emissions_grid_source = META, emissions_grid_range = HIGH\<rparr>,
           grid_emissions_version = 2\<rparr>"
  have h: "grid_emissions_version ?self \<in> {1, 2, 3, 4}" by simp
  from region_columns_constant[OF h] obtain df where
    df: "conv_ref_grid_CO2eq_per_KWh ?self = Inr df"
    and all: "\<forall>y \<in> set (index df). loc df y ''OECD90'' = Some 0.454068989
      \<and> loc df y ''Eastern Europe'' = Some 0.724747956
      \<and> loc df y ''Asia (Sans Japan)'' = Some 0.457658947
      \<and> loc df y ''Middle East and Africa'' = Some 0.282243907
      \<and> loc df y ''Latin America'' = Some 0.564394712
      \<and> loc df y ''China'' = Some 0.535962403
      \<and> loc df y ''India'' = Some 0.787832379
      \<and> loc df y ''EU'' = Some 0.360629290
      \<and> loc df y ''USA'' = Some 0.665071666" by blast
  have "df = yearly_table (map high world_meta_2)"
    using df by (simp add: conv_META_2 range_column_def)
  then have "2033 \<in> set (index df)" by (simp add: index_yearly_table del: upto_rec_numeral)
  with all df h show ?thesis by blast
qed

text \<open>
  C4. For every grid source, every grid range and every dataset version from 1 to 4, the
  returned table has exactly 46 rows, indexed by the years 2015 to 2060 in steps of 1
  (row \<open>i\<close> is the year \<open>2015 + i\<close>), every column has 46 cells, and the columns are exactly
  World, OECD90, Eastern Europe, Asia (Sans Japan), Middle East and Africa, Latin America,
  China, India, EU, USA, in that order.
\<close>

theorem table_shape:
  assumes "grid_emissions_version self \<in> {1, 2, 3, 4}"
  shows "\<exists>df. conv_ref_grid_CO2eq_per_KWh self = Inr df
    \<and> length (index df) = 46
    \<and> index df = [2015..2060]
    \<and> (\<forall>i<46. index df ! i = 2015 + int i)
    \<and> list_all (\<lambda>(c, vs). length vs = 46) (cols df)
    \<and> columns df =
        [''World'', ''OECD90'', ''Eastern Europe'', ''Asia (Sans Japan)'',
         ''Middle East and Africa'', ''Latin America'', ''China'', ''India'', ''EU'', ''USA'']"
proof -
  from assms obtain w where len: "length w = 46"
    and w: "conv_ref_grid_CO2eq_per_KWh self = Inr (yearly_table w)"
    using conv_valid[of self] by blast
  have "\<forall>i<46. [2015..2060::int] ! i = 2015 + int i"
    by (simp del: upto_rec_numeral)
  then show ?thesis
    unfolding w
    by (intro exI[of _ "yearly_table w"])
       (simp only: index_yearly_table columns_yearly_table cols_lengths_yearly_table[OF len]
          length_years simp_thms)
qed

text \<open>The same at META, MEAN, version 4.\<close>

theorem table_shape_witness:
  "grid_emissions_version \<lparr>ac = \<lparr>emissions_grid_source = META, emissions_grid_range = MEAN\<rparr>,
           grid_emissions_version = 4\<rparr> \<in> {1, 2, 3, 4}
   \<and> (\<exists>df. conv_ref_grid_CO2eq_per_KWh
          \<lparr>ac = \<lparr>emissions_grid_source = META, emissions_grid_range = MEAN\<rparr>,
           grid_emissions_version = 4\<rparr> = Inr df
        \<and> length (index df) = 46
        \<and> index df ! 0 = 2015 \<and> index df ! 1 = 2016 \<and> index df ! 45 = 2060
        \<and> length (columns df) = 10 \<and> columns df ! 0 = ''World'' \<and> columns df ! 9 = ''USA'')"
proof -
  let ?self = "\<lparr>ac = \<lparr>emissions_grid_source = META, emissions_grid_range = MEAN\<rparr>,
           grid_emissions_version = 4\<rparr>"
  have h: "grid_emissions_version ?self \<in> {1, 2, 3, 4}" by simp
  from table_shape[OF h] obtain df where
    df: "conv_ref_grid_CO2eq_per_KWh ?self = Inr df" "length (index df) = 46"
    and ix: "\<forall>i<46. index df ! i = 2015 + int i"
    and cs: "columns df =
        [''World'', ''OECD90'', ''Eastern Europe'', ''Asia (Sans Japan)'',
         ''Middle East and Africa'', ''Latin America'', ''China'', ''India'', ''EU'', ''USA'']"
    by blast
  from ix have "index df ! 0 = 2015" "index df ! 1 = 2016" "index df ! 45 = 2060" by simp_all
  moreover from cs have "length (columns df) = 10" "columns df ! 0 = ''World''" "columns df ! 9 = ''USA''"
    by simp_all
  ultimately show ?thesis using df h by blast
qed

text \<open>
  C5, as the specification states it: with grid source META and a dataset version outside
  1 to 4, for example 99, the resolver fails with an error whose message names the version
  99. It does fail, but the message is the one of the last branch of the dataset selection,
  which names the grid source; the text \<^verbatim>\<open>99\<close> does not occur in it.
\<close>

theorem invalid_meta_version_message_counterexample:
  "conv_ref_grid_CO2eq_per_KWh
      \<lparr>ac = \<lparr>emissions_grid_source = META, emissions_grid_range = MEAN\<rparr>,
       grid_emissions_version = 99\<rparr>
    = Inl (ValueError ''Invalid self.ac.emissions_grid_source GRID_SOURCE.META'')
   \<and> \<not> str_contains ''Invalid self.ac.emissions_grid_source GRID_SOURCE.META'' (str_int 99)"
proof -
  have "str_int 99 = ''99''" by code_simp
  then have "\<not> str_contains ''Invalid self.ac.emissions_grid_source GRID_SOURCE.META'' (str_int 99)"
    by simp
  then show ?thesis by (simp add: conv_META_other)
qed

text \<open>
  C5, amended: with grid source META and a dataset version outside 1 to 4 the resolver
  fails with a \<^verbatim>\<open>ValueError\<close>, and no table is returned.
\<close>

theorem invalid_meta_version_fails:
  assumes "emissions_grid_source (ac self) = META"
    and "grid_emissions_version self \<notin> {1, 2, 3, 4}"
  shows "\<exists>msg. conv_ref_grid_CO2eq_per_KWh self = Inl (ValueError msg)"
  using assms by (simp add: conv_META_other)

text \<open>The same at META, MEAN, version 99.\<close>

theorem invalid_meta_version_fails_witness:
  "emissions_grid_source (ac \<lparr>ac = \<lparr>emissions_grid_source = META, emissions_grid_range = MEAN\<rparr>,
       grid_emissions_version = 99\<rparr>) = META
   \<and> grid_emissions_version \<lparr>ac = \<lparr>emissions_grid_source = META, emissions_grid_range = MEAN\<rparr>,
       grid_emissions_version = 99\<rparr> \<notin> {1, 2, 3, 4}
   \<and> (\<exists>msg. conv_ref_grid_CO2eq_per_KWh
        \<lparr>ac = \<lparr>emissions_grid_source = META, emissions_grid_range = MEAN\<rparr>,
         grid_emissions_version = 99\<rparr> = Inl (ValueError msg))"
  using invalid_meta_version_fails[of "\<lparr>ac = \<lparr>emissions_grid_source = META, emissions_grid_range = MEAN\<rparr>,
       grid_emissions_version = 99\<rparr>"]
  by simp

text \<open>
  C6. \<^verbatim>\<open>CO2Equiv\<close> has the multipliers (CH4, N2O) = (34, 298) for AR5_WITH_FEEDBACK,
  (25, 298) for AR4 and (21, 310) for SAR; without a standard it is the same object as with
  AR5_WITH_FEEDBACK.
\<close>

theorem CO2Equiv_multipliers:
  "(\<exists>c. CO2Equiv_init (Some AR5_WITH_FEEDBACK) = Inr c \<and> CH4multiplier c = 34 \<and> N2Omultiplier c = 298)
   \<and> (\<exists>c. CO2Equiv_init (Some AR4) = Inr c \<and> CH4multiplier c = 25 \<and> N2Omultiplier c = 298)
   \<and> (\<exists>c. CO2Equiv_init (Some SAR) = Inr c \<and> CH4multiplier c = 21 \<and> N2Omultiplier c = 310)
   \<and> CO2Equiv_init None = CO2Equiv_init (Some AR5_WITH_FEEDBACK)"
  by (simp add: CO2Equiv_init_def)

text \<open>
  C7. \<^verbatim>\<open>string_to_emissions_grid_range\<close> gives the same value for "median" as for
  "mean", namely \<^verbatim>\<open>GRID_RANGE.MEAN\<close>, and so it does for every case variant \<open>t\<close> of
  either string.
\<close>

theorem median_is_mean:
  "string_to_emissions_grid_range ''median'' = string_to_emissions_grid_range ''mean''
   \<and> string_to_emissions_grid_range ''mean'' = Inr MEAN
   \<and> (case_variant t ''median'' \<or> case_variant t ''mean'' \<longrightarrow>
          string_to_emissions_grid_range t = Inr MEAN)"
  by (auto simp: string_to_emissions_grid_range_def case_variant_def lower_mean lower_median)

text \<open>The same at the case variant "MeDiAn".\<close>

theorem median_is_mean_witness:
  "(case_variant ''MeDiAn'' ''median'' \<or> case_variant ''MeDiAn'' ''mean'')
   \<and> string_to_emissions_grid_range ''MeDiAn'' = Inr MEAN"
proof -
  have h: "case_variant ''MeDiAn'' ''median''" by code_simp
  with median_is_mean[of "''MeDiAn''"] show ?thesis by blast
qed



text \<open>
  C9. \<^verbatim>\<open>conv_ref_grid_CO2_per_KWh\<close> returns one and the same table for every resolver
  object, whatever its grid source, grid range and dataset version: 46 rows for the years
  2015 to 2060, the ten region columns, "World" equal to 0.484512031078339 in every row, and
  every column constant over the years.
\<close>

theorem direct_table_fixed:
  "\<exists>df. (\<forall>self. conv_ref_grid_CO2_per_KWh self = Inr df)
    \<and> length (index df) = 46
    \<and> index df = [2015..2060]
    \<and> columns df =
        [''World'', ''OECD90'', ''Eastern Europe'', ''Asia (Sans Japan)'',
         ''Middle East and Africa'', ''Latin America'', ''China'', ''India'', ''EU'', ''USA'']
    \<and> (\<forall>y \<in> set (index df). loc df y ''World'' = Some 0.484512031078339)
    \<and> (\<forall>c \<in> set (columns df). \<exists>v. \<forall>y \<in> set (index df). loc df y c = Some v)"
proof -
  let ?df = "\<lparr>index_name = Some ''Year'', index = [2015..2060], cols = direct_constants\<rparr>"
  have 1: "\<forall>self. conv_ref_grid_CO2_per_KWh self = Inr ?df"
    by (simp only: conv_CO2_result simp_thms)
  have 2: "length (index ?df) = 46" "index ?df = [2015..2060]"
    by (simp_all del: upto_rec_numeral)
  have 3: "columns ?df =
        [''World'', ''OECD90'', ''Eastern Europe'', ''Asia (Sans Japan)'',
         ''Middle East and Africa'', ''Latin America'', ''China'', ''India'', ''EU'', ''USA'']"
    by (simp add: columns_def direct_constants_def del: upto_rec_numeral)
  have 4: "\<forall>y \<in> set (index ?df). loc ?df y ''World'' = Some 0.484512031078339"
    using loc_constant_column[OF direct_constants_World]
    by (simp del: upto_rec_numeral set_upto)
  have 5: "\<forall>c \<in> set (columns ?df). \<exists>v. \<forall>y \<in> set (index ?df). loc ?df y c = Some v"
  proof
    fix c assume "c \<in> set (columns ?df)"
    then have "c \<in> set (map fst direct_constants)" by (simp add: columns_def)
    then obtain v where "map_of direct_constants c = Some (replicate 46 (Some v))"
      using direct_constants_lookup by blast
    then have "\<forall>y \<in> set (index ?df). loc ?df y c = Some v"
      using loc_constant_column[of direct_constants c v]
      by (simp del: upto_rec_numeral set_upto)
    then show "\<exists>v. \<forall>y \<in> set (index ?df). loc ?df y c = Some v" ..
  qed
  from 1 2 3 4 5 show ?thesis
    by (intro exI[of _ ?df] conjI) assumption+
qed

text \<open>The same for two resolver objects, read at the years 2015 and 2060.\<close>

theorem direct_table_fixed_witness:
  "\<exists>df. conv_ref_grid_CO2_per_KWh
          \<lparr>ac = \<lparr>emissions_grid_source = META, emissions_grid_range = LOW\<rparr>,
           grid_emissions_version = 3\<rparr> = Inr df
      \<and> conv_ref_grid_CO2_per_KWh
          \<lparr>ac = \<lparr>emissions_grid_source = IPCC, emissions_grid_range = HIGH\<rparr>,
           grid_emissions_version = 1\<rparr> = Inr df
      \<and> 2015 \<in> set (index df) \<and> 2060 \<in> set (index df) \<and> ''India'' \<in> set (columns df)
      \<and> loc df 2015 ''World'' = Some 0.484512031078339
      \<and> loc df 2060 ''World'' = Some 0.484512031078339
      \<and> loc df 2015 ''India'' = loc df 2060 ''India''"
proof -
  from direct_table_fixed obtain df where
    a: "\<forall>self. conv_ref_grid_CO2_per_KWh self = Inr df"
    and ix: "index df = [2015..2060]"
    and cs: "columns df =
        [''World'', ''OECD90'', ''Eastern Europe'', ''Asia (Sans Japan)'',
         ''Middle East and Africa'', ''Latin America'', ''China'', ''India'', ''EU'', ''USA'']"
    and w: "\<forall>y \<in> set (index df). loc df y ''World'' = Some 0.484512031078339"
    and k: "\<forall>c \<in> set (columns df). \<exists>v. \<forall>y \<in> set (index df). loc df y c = Some v"
    by blast
  have m: "2015 \<in> set (index df)" "2060 \<in> set (index df)"
    by (simp_all add: ix del: upto_rec_numeral)
  have c: "''India'' \<in> set (columns df)" by (simp add: cs)
  from k c obtain v where "\<forall>y \<in> set (index df). loc df y ''India'' = Some v" by blast
  with m have "loc df 2015 ''India'' = loc df 2060 ''India''" by simp
  with a m c w show ?thesis
    by (intro exI[of _ df] conjI) simp_all
qed

text \<open>
  C10. A resolver constructed without a dataset version has version 1 and behaves as one
  constructed with version 1; with grid source META the "World" column of its table is the
  column of the META version 1 dataset that the grid range selects.
\<close>

theorem default_version_is_meta_1:
  "grid_emissions_version (ElectricityGenOnGrid_init a None) = 1
   \<and> conv_ref_grid_CO2eq_per_KWh (ElectricityGenOnGrid_init a None)
       = conv_ref_grid_CO2eq_per_KWh (ElectricityGenOnGrid_init a (Some 1))
   \<and> (emissions_grid_source a = META \<longrightarrow>
       (\<exists>df. conv_ref_grid_CO2eq_per_KWh (ElectricityGenOnGrid_init a None) = Inr df
          \<and> map_of (cols df) ''World''
              = Some (map Some (range_column (emissions_grid_range a) world_meta_1))))"
proof -
  have v: "grid_emissions_version (ElectricityGenOnGrid_init a None) = 1"
    and e: "ElectricityGenOnGrid_init a None = ElectricityGenOnGrid_init a (Some 1)"
    and s: "ac (ElectricityGenOnGrid_init a None) = a"
    by (simp_all add: ElectricityGenOnGrid_init_def)
  have "map_of (cols (yearly_table w)) ''World'' = Some (map Some w)" for w
    by (simp add: yearly_table_def)
  then show ?thesis
    using conv_META_1[of "ElectricityGenOnGrid_init a None"] v
    by (simp add: e[symmetric] s)
qed

text \<open>The same at META, HIGH.\<close>

theorem default_version_is_meta_1_witness:
  "emissions_grid_source \<lparr>emissions_grid_source = META, emissions_grid_range = HIGH\<rparr> = META
   \<and> (\<exists>df. conv_ref_grid_CO2eq_per_KWh
          (ElectricityGenOnGrid_init \<lparr>emissions_grid_source = META, emissions_grid_range = HIGH\<rparr> None)
        = Inr df
        \<and> map_of (cols df) ''World'' = Some (map Some (map high world_meta_1)))"
proof -
  let ?a = "\<lparr>emissions_grid_source = META, emissions_grid_range = HIGH\<rparr>"
  have h: "emissions_grid_source ?a = META" by simp
  have r: "range_column (emissions_grid_range ?a) world_meta_1 = map high world_meta_1"
    by (simp add: range_column_def)
  from default_version_is_meta_1[of ?a] h
  have "\<exists>df. conv_ref_grid_CO2eq_per_KWh (ElectricityGenOnGrid_init ?a None) = Inr df
          \<and> map_of (cols df) ''World''
              = Some (map Some (range_column (emissions_grid_range ?a) world_meta_1))"
    by (elim conjE impE)
  then show ?thesis unfolding r using h by (intro conjI)
qed

end
